theory Spec2Isabelle
  imports Complex_Main "HOL-Library.Multiset"
begin

section \<open>The water quality dashboard (app.py)\<close>

text \<open>
  The program is one Python script: \<open>load_data\<close> reads a CSV file with pandas and fills
  the missing cells of the numeric columns with the column median; the rest of the script
  routes a sidebar selection to one of six pages. The pandas, Streamlit and matplotlib
  calls of the script are library code. The pandas operations on tables are modelled here
  by what they compute on the table; the file system, the CSV parser, the image loader
  and the chart drawing are parameters (\<open>env\<close>), since what they do is decided outside
  the script. Floating point numbers are modelled by the reals: rounding, infinities and
  the range of \<open>float64\<close> are not modelled.
\<close>

subsection \<open>Tables\<close>

text \<open>
  A cell value of a table. A missing cell (pandas' NaN) is \<open>None\<close> in the lists below.
\<close>

datatype scalar = Number real | Text string | Boolean bool

text \<open>
  A column with its dtype, as \<open>read_csv\<close> infers it: \<open>int64\<close> (whole numbers, no cell
  missing), \<open>float64\<close> (numbers, cells may be missing; a column whose cells are all empty
  is of this dtype), \<open>bool\<close> (no cell missing) and \<open>object\<close> (anything else).
\<close>

datatype column =
    IntCol "int list"
  | FloatCol "real option list"
  | BoolCol "bool list"
  | ObjectCol "scalar option list"

text \<open>
  A DataFrame: the length of its row index and its columns in file order.
  \<open>read_csv\<close> returns frames whose column names are distinct (it renames duplicates)
  and whose columns all have the length of the index: \<open>wf_df\<close>.
\<close>

record dataframe =
  index_len :: nat
  columns :: "(string \<times> column) list"

fun cells :: "column \<Rightarrow> scalar option list" where
  "cells (IntCol xs) = map (\<lambda>i. Some (Number (of_int i))) xs"
| "cells (FloatCol xs) = map (map_option Number) xs"
| "cells (BoolCol xs) = map (\<lambda>b. Some (Boolean b)) xs"
| "cells (ObjectCol xs) = xs"

definition col_len :: "column \<Rightarrow> nat" where
  "col_len c = length (cells c)"

definition wf_df :: "dataframe \<Rightarrow> bool" where
  "wf_df df \<longleftrightarrow>
     distinct (map fst (columns df)) \<and>
     list_all (\<lambda>(n, c). col_len c = index_len df) (columns df)"

text \<open>\<open>dropna\<close>: the values that are present, in row order.\<close>

definition dropna :: "'a option list \<Rightarrow> 'a list" where
  "dropna xs = List.map_filter (\<lambda>x. x) xs"

text \<open>\<open>isna\<close> on a cell, and the number of missing cells of a column.\<close>

definition isnull_sum :: "column \<Rightarrow> nat" where
  "isnull_sum c = length (filter (\<lambda>v. v = None) (cells c))"

text \<open>The dtypes that \<open>select_dtypes(include="number")\<close> keeps.\<close>

fun is_number :: "column \<Rightarrow> bool" where
  "is_number (IntCol _) = True"
| "is_number (FloatCol _) = True"
| "is_number (BoolCol _) = False"
| "is_number (ObjectCol _) = False"

definition select_dtypes_number :: "dataframe \<Rightarrow> dataframe" where
  "select_dtypes_number df = df\<lparr>columns := filter (\<lambda>(n, c). is_number c) (columns df)\<rparr>"

definition column_names :: "dataframe \<Rightarrow> string list" where
  "column_names df = map fst (columns df)"

subsection \<open>Exceptions\<close>

text \<open>
  The exception classes told apart here: \<open>FileNotFoundError\<close> with its message,
  \<open>KeyError\<close> with its key, and \<open>Exception\<close> with its message for every other class.
\<close>

datatype exn = FileNotFoundError string | KeyError "string option" | Exception string

text \<open>\<open>str(e)\<close>; a \<open>KeyError\<close> shows the \<open>repr\<close> of its key, which may be \<open>None\<close>.\<close>

fun str_exn :: "exn \<Rightarrow> string" where
  "str_exn (FileNotFoundError m) = m"
| "str_exn (KeyError None) = ''None''"
| "str_exn (KeyError (Some k)) = [CHR 0x27] @ k @ [CHR 0x27]"
| "str_exn (Exception m) = m"

subsection \<open>The pandas operations of \<open>load_data\<close>\<close>

text \<open>
  \<open>df[keys]\<close> with a list of names: the named columns in the order of the keys;
  a name that is no column raises \<open>KeyError\<close>.
\<close>

fun lookup_cols :: "(string \<times> column) list \<Rightarrow> string list \<Rightarrow> exn + (string \<times> column) list" where
  "lookup_cols cs [] = Inr []"
| "lookup_cols cs (k # ks) =
     (case map_of cs k of
        None \<Rightarrow> Inl (KeyError (Some k))
      | Some c \<Rightarrow>
          (case lookup_cols cs ks of
             Inl e \<Rightarrow> Inl e
           | Inr r \<Rightarrow> Inr ((k, c) # r)))"

definition df_getitem_list :: "dataframe \<Rightarrow> string list \<Rightarrow> exn + dataframe" where
  "df_getitem_list df keys =
     (case lookup_cols (columns df) keys of
        Inl e \<Rightarrow> Inl e
      | Inr cs \<Rightarrow> Inr (df\<lparr>columns := cs\<rparr>))"

text \<open>
  The median of the values that are present (\<open>skipna\<close>): the middle element of the sorted
  values, the mean of the two middle elements when their number is even, and NaN
  (\<open>None\<close>) when there is none.
\<close>

definition nanmedian :: "real list \<Rightarrow> real option" where
  "nanmedian vs =
     (if vs = [] then None
      else let s = sort vs; n = length s
           in Some (if odd n then s ! (n div 2)
                    else (s ! (n div 2 - 1) + s ! (n div 2)) / 2))"

text \<open>The values of a numeric column; a column of another dtype has none.\<close>

fun numeric_values :: "column \<Rightarrow> real option list" where
  "numeric_values (IntCol xs) = map (\<lambda>i. Some (of_int i)) xs"
| "numeric_values (FloatCol xs) = xs"
| "numeric_values (BoolCol xs) = []"
| "numeric_values (ObjectCol xs) = []"

definition series_median :: "column \<Rightarrow> real option" where
  "series_median c = nanmedian (dropna (numeric_values c))"

text \<open>\<open>DataFrame.median()\<close>: one median for each column, under the column's name.\<close>

definition df_median :: "dataframe \<Rightarrow> (string \<times> real option) list" where
  "df_median df = map (\<lambda>(n, c). (n, series_median c)) (columns df)"

text \<open>
  \<open>Series.fillna(v)\<close>: every missing cell becomes \<open>v\<close>, every other cell is kept.
  Filling with NaN changes nothing; \<open>int64\<close> and \<open>bool\<close> columns have no missing cell.
\<close>

definition fill_cell :: "'a \<Rightarrow> 'a option \<Rightarrow> 'a option" where
  "fill_cell v x = (case x of None \<Rightarrow> Some v | Some y \<Rightarrow> Some y)"

fun series_fillna :: "column \<Rightarrow> real option \<Rightarrow> column" where
  "series_fillna c None = c"
| "series_fillna (IntCol xs) (Some v) = IntCol xs"
| "series_fillna (FloatCol xs) (Some v) = FloatCol (map (fill_cell v) xs)"
| "series_fillna (BoolCol xs) (Some v) = BoolCol xs"
| "series_fillna (ObjectCol xs) (Some v) = ObjectCol (map (fill_cell (Number v)) xs)"

text \<open>
  \<open>DataFrame.fillna(values)\<close> with one value for each column name: a column is filled
  with the value under its name, a column without a value is kept.
\<close>

definition df_fillna :: "dataframe \<Rightarrow> (string \<times> real option) list \<Rightarrow> dataframe" where
  "df_fillna df vals =
     df\<lparr>columns :=
          map (\<lambda>(n, c). (n, case map_of vals n of None \<Rightarrow> c | Some v \<Rightarrow> series_fillna c v))
              (columns df)\<rparr>"

text \<open>
  \<open>df[keys] = value\<close> with a frame as value: the columns of the value are paired with
  the keys by position, and each column of \<open>df\<close> named by a key is replaced, in place, by
  its partner. The keys and the value must have the same number of columns.
\<close>

definition df_setitem_list :: "dataframe \<Rightarrow> string list \<Rightarrow> dataframe \<Rightarrow> exn + dataframe" where
  "df_setitem_list df keys val =
     (if length keys \<noteq> length (columns val) then Inl (Exception ''Columns must be same length as key'')
      else Inr (df\<lparr>columns :=
                  map (\<lambda>(n, c). case map_of (zip keys (map snd (columns val))) n of
                                  None \<Rightarrow> (n, c)
                                | Some c' \<Rightarrow> (n, c'))
                      (columns df)\<rparr>))"

subsection \<open>The environment\<close>

text \<open>
  What the script reads from outside: the files (a path has no file, a file that cannot be
  opened, or a file with its text), the CSV parser of pandas (the frame, or the message of
  the exception it raises on malformed text), the image loader of \<open>st.image\<close> and the
  drawing of a chart by matplotlib (the message of the exception when they raise).
\<close>

datatype file_state = NoFile | Unreadable string | File string

datatype chart =
    LinePlot column string
  | Histogram column nat string
  | Pie "(scalar \<times> nat) list"

record env =
  files :: "string \<Rightarrow> file_state"
  parse_csv :: "string \<Rightarrow> string + dataframe"
  image_error :: "string \<Rightarrow> string option"
  draw_error :: "chart \<Rightarrow> string option"

definition pd_read_csv :: "env \<Rightarrow> string \<Rightarrow> exn + dataframe" where
  "pd_read_csv e path =
     (case files e path of
        NoFile \<Rightarrow> Inl (FileNotFoundError (''[Errno 2] No such file or directory: '' @ [CHR 0x27] @ path @ [CHR 0x27]))
      | Unreadable m \<Rightarrow> Inl (Exception m)
      | File text \<Rightarrow>
          (case parse_csv e text of
             Inl m \<Rightarrow> Inl (Exception m)
           | Inr df \<Rightarrow> Inr df))"

subsection \<open>The Streamlit output\<close>

datatype table =
    Frame dataframe
  | NullCounts "(string \<times> nat) list"
  | Describe dataframe
  | ValueCounts "(scalar \<times> nat) list"

datatype st_event =
    StPageConfig string
  | StError string
  | StWarning string
  | StTitle string
  | StSubheader string
  | StMarkdown string
  | StImage string string
  | StWrite string
  | StWriteList "string list"
  | StDataframe table
  | StSelectbox string "string list"
  | StPyplot chart
  | StSidebarTitle string
  | StSidebarRadio string "string list"

subsection \<open>\<open>load_data\<close>\<close>

text \<open>
  Lines 26 and 27: the names of the numeric columns, and the assignment of the filled
  numeric columns. An exception of these lines is caught by \<open>load_data\<close> like any other.
\<close>

definition fill_numeric :: "dataframe \<Rightarrow> exn + dataframe" where
  "fill_numeric df =
     (let numeric_cols = column_names (select_dtypes_number df)
      in case df_getitem_list df numeric_cols of
           Inl e \<Rightarrow> Inl e
         | Inr sub \<Rightarrow> df_setitem_list df numeric_cols (df_fillna sub (df_median sub)))"

text \<open>
  \<open>load_data\<close> returns the frame or \<open>None\<close>, and shows an error message in the two
  \<open>except\<close> branches. The cache of \<open>st.cache_data\<close> is not modelled: the function is
  called once.
\<close>

definition load_data :: "env \<Rightarrow> string \<Rightarrow> st_event list \<times> dataframe option" where
  "load_data e csv_path =
     (case (case pd_read_csv e csv_path of Inl x \<Rightarrow> Inl x | Inr df \<Rightarrow> fill_numeric df) of
        Inr df \<Rightarrow> ([], Some df)
      | Inl (FileNotFoundError m) \<Rightarrow> ([StError (''File not found: '' @ csv_path)], None)
      | Inl x \<Rightarrow> ([StError (''Error loading data: '' @ str_exn x)], None))"

text \<open>
  What lines 26 and 27 do to one column (lemma \<open>fill_numeric_columns\<close> below): a numeric
  column is filled with its own median, a column of another dtype is kept.
\<close>

definition impute_column :: "column \<Rightarrow> column" where
  "impute_column c = (if is_number c then series_fillna c (series_median c) else c)"

subsection \<open>The script after the load\<close>

text \<open>
  A run of the script shows its output in order and stops at the first exception that is
  not caught: the output so far and the exception, if any.
\<close>

type_synonym outcome = "st_event list \<times> exn option"

definition emit :: "st_event list \<Rightarrow> outcome" where
  "emit evs = (evs, None)"

definition raise :: "exn \<Rightarrow> outcome" where
  "raise x = ([], Some x)"

definition then_run :: "outcome \<Rightarrow> outcome \<Rightarrow> outcome" where
  "then_run a b =
     (case snd a of
        Some x \<Rightarrow> a
      | None \<Rightarrow> (fst a @ fst b, snd b))"


definition st_pyplot :: "env \<Rightarrow> chart \<Rightarrow> outcome" where
  "st_pyplot e ch =
     (case draw_error e ch of
        None \<Rightarrow> emit [StPyplot ch]
      | Some m \<Rightarrow> raise (Exception m))"


text \<open>\<open>data[key]\<close> with one key: the column of that name, or \<open>KeyError\<close>.\<close>

definition df_getitem :: "dataframe \<Rightarrow> string option \<Rightarrow> exn + column" where
  "df_getitem df key =
     (case key of
        None \<Rightarrow> Inl (KeyError None)
      | Some k \<Rightarrow>
          (case map_of (columns df) k of
             None \<Rightarrow> Inl (KeyError (Some k))
           | Some c \<Rightarrow> Inr c))"



text \<open>
  \<open>Series.value_counts()\<close>: the number of cells of each value that occurs, missing cells
  left out, the most frequent value first. The order among values of the same count is
  the one of \<open>remdups\<close> here; nothing below depends on it.
\<close>

definition value_counts :: "column \<Rightarrow> (scalar \<times> nat) list" where
  "value_counts c =
     (let vs = dropna (cells c)
      in sort_key (\<lambda>(v, k). - int k) (map (\<lambda>v. (v, count_list vs v)) (remdups vs)))"




datatype page = Home | Dataset_Overview | Parameter_Trends | Distribution | Potability | About


text \<open>The emoji of the titles and the copyright sign, in UTF-8.\<close>

definition droplet :: string where
  "droplet = [CHR 0xF0, CHR 0x9F, CHR 0x92, CHR 0xA7]"













definition potability_page :: "env \<Rightarrow> dataframe option \<Rightarrow> outcome" where
  "potability_page e data =
     then_run (emit [StTitle (droplet @ '' Water Potability Summary'')])
       (case data of
          Some d \<Rightarrow>
            (if ''Potability'' \<in> set (column_names d) then
               (case df_getitem d (Some ''Potability'') of
                  Inl x \<Rightarrow> raise x
                | Inr c \<Rightarrow>
                    (let pot_counts = value_counts c
                     in then_run
                          (emit [StWrite ''### Potability Counts'',
                                 StDataframe (ValueCounts pot_counts)])
                          (st_pyplot e (Pie pot_counts))))
             else emit [StWarning (''No '' @ [CHR 0x27] @ ''Potability'' @ [CHR 0x27]
                                   @ '' column found in dataset.'')])
        | None \<Rightarrow> emit [StWarning ''No data available for Potability analysis.''])"



definition default_path :: string where
  "default_path = ''data/water_potability.csv''"


subsection \<open>Example inputs\<close>

text \<open>
  An environment with one CSV file: \<open>path\<close> holds \<open>text\<close>, which pandas parses to \<open>df\<close>;
  any other text has no columns to parse. The image opens and every chart is drawn.
\<close>

definition csv_env :: "string \<Rightarrow> string \<Rightarrow> dataframe \<Rightarrow> env" where
  "csv_env path text df =
     \<lparr>files = (\<lambda>p. if p = path then File text else NoFile),
      parse_csv = (\<lambda>t. if t = text then Inr df else Inl ''No columns to parse from file''),
      image_error = (\<lambda>p. None),
      draw_error = (\<lambda>c. None)\<rparr>"

text \<open>The three rows of the specification's example: the second pH cell is empty.\<close>

definition example_text :: string where
  "example_text =
     ''pH,Potability'' @ [CHR 0x0A] @ ''7.0,1'' @ [CHR 0x0A] @ '',0'' @ [CHR 0x0A] @ ''9.0,1'' @ [CHR 0x0A]"

definition example_src :: dataframe where
  "example_src =
     \<lparr>index_len = 3,
      columns = [(''pH'', FloatCol [Some 7, None, Some 9]), (''Potability'', IntCol [1, 0, 1])]\<rparr>"

definition example_env :: env where
  "example_env = csv_env default_path example_text example_src"

definition example_loaded :: dataframe where
  "example_loaded =
     \<lparr>index_len = 3,
      columns = [(''pH'', FloatCol [Some 7, Some 8, Some 9]), (''Potability'', IntCol [1, 0, 1])]\<rparr>"

text \<open>Two rows whose pH cells are both empty.\<close>

definition all_missing_text :: string where
  "all_missing_text = ''pH,Potability'' @ [CHR 0x0A] @ '',1'' @ [CHR 0x0A] @ '',0'' @ [CHR 0x0A]"

definition all_missing_src :: dataframe where
  "all_missing_src =
     \<lparr>index_len = 2,
      columns = [(''pH'', FloatCol [None, None]), (''Potability'', IntCol [1, 0])]\<rparr>"

definition all_missing_env :: env where
  "all_missing_env = csv_env default_path all_missing_text all_missing_src"

text \<open>Three rows, the Potability cell of the second one empty.\<close>

definition nan_label_text :: string where
  "nan_label_text =
     ''pH,Potability'' @ [CHR 0x0A] @ ''7.0,1'' @ [CHR 0x0A] @ ''8.0,'' @ [CHR 0x0A] @ ''9.0,0'' @ [CHR 0x0A]"

definition nan_label_src :: dataframe where
  "nan_label_src =
     \<lparr>index_len = 3,
      columns = [(''pH'', FloatCol [Some 7, Some 8, Some 9]),
                 (''Potability'', FloatCol [Some 1, None, Some 0])]\<rparr>"

definition nan_label_env :: env where
  "nan_label_env = csv_env default_path nan_label_text nan_label_src"

definition nan_label_loaded :: dataframe where
  "nan_label_loaded =
     \<lparr>index_len = 3,
      columns = [(''pH'', FloatCol [Some 7, Some 8, Some 9]),
                 (''Potability'', FloatCol [Some 1, Some (1 / 2), Some 0])]\<rparr>"

text \<open>Two rows whose Potability cells are both empty.\<close>

definition no_label_text :: string where
  "no_label_text = ''pH,Potability'' @ [CHR 0x0A] @ ''7.0,'' @ [CHR 0x0A] @ ''8.0,'' @ [CHR 0x0A]"

definition no_label_src :: dataframe where
  "no_label_src =
     \<lparr>index_len = 2,
      columns = [(''pH'', FloatCol [Some 7, Some 8]), (''Potability'', FloatCol [None, None])]\<rparr>"

definition no_label_env :: env where
  "no_label_env = csv_env default_path no_label_text no_label_src"








text \<open>An empty file at the default path: the parser raises.\<close>

definition malformed_env :: env where
  "malformed_env = csv_env default_path [] example_src\<lparr>parse_csv := (\<lambda>t. Inl ''No columns to parse from file'')\<rparr>"

section \<open>Properties of \<open>load_data\<close>\<close>

subsection \<open>Lines 26 and 27 on a frame with distinct column names\<close>

lemma lookup_cols_present:
  "distinct (map fst cs) \<Longrightarrow> set ys \<subseteq> set cs \<Longrightarrow> lookup_cols cs (map fst ys) = Inr ys"
  by (induction ys) auto

lemma map_of_filtered:
  assumes "distinct (map fst cs)" and "(n, c) \<in> set cs"
  shows "map_of (map (\<lambda>(n, c). (n, f c)) (filter (\<lambda>(n, c). P c) cs)) n = (if P c then Some (f c) else None)"
proof (cases "P c")
  case True
  have d: "distinct (map fst (filter (\<lambda>(n, c). P c) cs))"
    using assms(1) by (simp add: distinct_map_filter)
  have "(n, c) \<in> set (filter (\<lambda>(n, c). P c) cs)" using assms(2) True by simp
  then have "map_of (filter (\<lambda>(n, c). P c) cs) n = Some c" using d by simp
  then show ?thesis using True by (simp add: map_of_map)
next
  case False
  have "n \<notin> fst ` set (filter (\<lambda>(n, c). P c) cs)"
  proof
    assume "n \<in> fst ` set (filter (\<lambda>(n, c). P c) cs)"
    then obtain c' where c': "(n, c') \<in> set cs" "P c'" by auto
    from assms c'(1) have "c' = c" by (meson eq_key_imp_eq_value)
    with c'(2) False show False by simp
  qed
  then have "map_of (filter (\<lambda>(n, c). P c) cs) n = None" by (simp add: map_of_eq_None_iff)
  then show ?thesis using False by (simp add: map_of_map)
qed

lemma zip_names_mapped:
  "zip (map fst cs) (map snd (map (\<lambda>(n, c). (n, g c)) cs)) = map (\<lambda>(n, c). (n, g c)) cs"
  by (induction cs) auto

lemma fill_numeric_columns:
  assumes "distinct (map fst (columns df))"
  shows "fill_numeric df = Inr (df\<lparr>columns := map (\<lambda>(n, c). (n, impute_column c)) (columns df)\<rparr>)"
proof -
  define F where "F = filter (\<lambda>(n, c). is_number c) (columns df)"
  define G where "G = map (\<lambda>(n, c). (n, series_fillna c (series_median c))) F"
  have keys: "column_names (select_dtypes_number df) = map fst F"
    by (simp add: column_names_def select_dtypes_number_def F_def)
  have "set F \<subseteq> set (columns df)" by (auto simp: F_def)
  then have sub: "df_getitem_list df (map fst F) = Inr (df\<lparr>columns := F\<rparr>)"
    using lookup_cols_present [OF assms, of F] by (simp add: df_getitem_list_def)
  have med: "map_of (map (\<lambda>(n, c). (n, series_median c)) F) n = Some (series_median c)"
    if "(n, c) \<in> set F" for n c
  proof -
    from that have "(n, c) \<in> set (columns df)" "is_number c" by (auto simp: F_def)
    then show ?thesis
      using map_of_filtered [OF assms, of n c series_median is_number] by (simp add: F_def)
  qed
  have "map (\<lambda>(n, c). (n, case map_of (map (\<lambda>(n, c). (n, series_median c)) F) n of
                               None \<Rightarrow> c | Some v \<Rightarrow> series_fillna c v)) F = G"
    unfolding G_def by (rule map_cong [OF refl]) (auto simp: med)
  then have filled: "df_fillna (df\<lparr>columns := F\<rparr>) (df_median (df\<lparr>columns := F\<rparr>)) = df\<lparr>columns := G\<rparr>"
    by (simp add: df_fillna_def df_median_def)
  have zipG: "zip (map fst F) (map snd G) = G"
    unfolding G_def by (rule zip_names_mapped)
  have lenG: "length G = length F" by (simp add: G_def)
  have new: "map_of G n = (if is_number c then Some (series_fillna c (series_median c)) else None)"
    if "(n, c) \<in> set (columns df)" for n c
    using map_of_filtered [OF assms that, of "\<lambda>c. series_fillna c (series_median c)" is_number]
    by (simp add: G_def F_def)
  have eq: "map (\<lambda>(n, c). case map_of G n of None \<Rightarrow> (n, c) | Some c' \<Rightarrow> (n, c')) (columns df)
        = map (\<lambda>(n, c). (n, impute_column c)) (columns df)"
    by (rule map_cong [OF refl]) (auto simp: new impute_column_def)
  have setit: "df_setitem_list df (map fst F) (df\<lparr>columns := G\<rparr>)
      = Inr (df\<lparr>columns := map (\<lambda>(n, c). (n, impute_column c)) (columns df)\<rparr>)"
    by (simp add: df_setitem_list_def zipG lenG eq)
  show ?thesis
    by (simp add: fill_numeric_def keys sub filled setit)
qed

lemma load_data_success:
  assumes "pd_read_csv e path = Inr src" and "wf_df src"
  shows "load_data e path =
    ([], Some (src\<lparr>columns := map (\<lambda>(n, c). (n, impute_column c)) (columns src)\<rparr>))"
proof -
  from assms(2) have "distinct (map fst (columns src))" by (simp add: wf_df_def)
  then show ?thesis using assms(1) by (simp add: load_data_def fill_numeric_columns)
qed

lemma load_data_loaded:
  assumes "pd_read_csv e path = Inr src" and "wf_df src" and "load_data e path = (out, Some d)"
  shows "d = src\<lparr>columns := map (\<lambda>(n, c). (n, impute_column c)) (columns src)\<rparr>"
  using load_data_success [OF assms(1,2)] assms(3) by simp

subsection \<open>Failures of the load\<close>

text \<open>
  C5: loading a path that does not exist shows the error message
  \<open>File not found: <path>\<close>, which ends with the attempted path, and returns no
  Dataset (\<open>None\<close>).
\<close>

theorem load_data_file_not_found:
  assumes "files e path = NoFile"
  shows "load_data e path = ([StError (''File not found: '' @ path)], None)"
  using assms by (simp add: load_data_def pd_read_csv_def)

theorem load_data_file_not_found_witness:
  "files example_env ''data/missing.csv'' = NoFile \<and>
   load_data example_env ''data/missing.csv'' = ([StError ''File not found: data/missing.csv''], None)"
proof -
  have h: "files example_env ''data/missing.csv'' = NoFile"
    by (simp add: example_env_def csv_env_def default_path_def)
  show ?thesis using h load_data_file_not_found [OF h] by simp
qed

text \<open>
  C6: when the file exists and the CSV parser raises on its text (a malformed CSV), or
  the file cannot be opened for another reason than its absence, \<open>load_data\<close> shows the
  message \<open>Error loading data: <message of the exception>\<close> and returns no Dataset.
\<close>

theorem load_data_parse_error:
  assumes "(files e path = File text \<and> parse_csv e text = Inl m) \<or> files e path = Unreadable m"
  shows "load_data e path = ([StError (''Error loading data: '' @ m)], None)"
  using assms by (auto simp: load_data_def pd_read_csv_def)

theorem load_data_parse_error_witness:
  "files malformed_env default_path = File [] \<and>
   parse_csv malformed_env [] = Inl ''No columns to parse from file'' \<and>
   load_data malformed_env default_path =
     ([StError ''Error loading data: No columns to parse from file''], None)"
proof -
  have h: "files malformed_env default_path = File [] \<and>
      parse_csv malformed_env [] = Inl ''No columns to parse from file''"
    by (simp add: malformed_env_def csv_env_def)
  then have "(files malformed_env default_path = File [] \<and>
      parse_csv malformed_env [] = Inl ''No columns to parse from file'') \<or>
      files malformed_env default_path = Unreadable ''No columns to parse from file''"
    by simp
  from load_data_parse_error [OF this] h show ?thesis by simp
qed

subsection \<open>The imputation of one column\<close>

lemma cells_numeric: "is_number c \<Longrightarrow> cells c = map (map_option Number) (numeric_values c)"
  by (cases c) simp_all

lemma cells_series_fillna:
  "is_number c \<Longrightarrow> cells (series_fillna c (Some m)) = map (fill_cell (Number m)) (cells c)"
  by (cases c) (simp_all add: fill_cell_def comp_def split: option.splits)

lemma is_number_series_fillna: "is_number (series_fillna c v) = is_number c"
  by (cases c; cases v) simp_all

lemma is_number_impute: "is_number (impute_column c) = is_number c"
  by (simp add: impute_column_def is_number_series_fillna)

lemma dropna_Nil_iff: "dropna xs = [] \<longleftrightarrow> (\<forall>x \<in> set xs. x = None)"
  by (induction xs) (auto simp: dropna_def List.map_filter_def)

lemma nanmedian_None_iff: "nanmedian vs = None \<longleftrightarrow> vs = []"
  by (simp add: nanmedian_def Let_def)

lemma isnull_sum_zero_iff: "isnull_sum c = 0 \<longleftrightarrow> None \<notin> set (cells c)"
  unfolding isnull_sum_def length_0_conv filter_empty_conv by metis

lemma map_fill_cell_fixed_iff: "map (fill_cell v) xs = xs \<longleftrightarrow> None \<notin> set xs"
proof (induction xs)
  case Nil
  then show ?case by simp
next
  case (Cons a xs)
  then show ?case by (cases a) (auto simp: fill_cell_def)
qed

lemma none_cells_float: "None \<in> set (cells (FloatCol xs)) \<longleftrightarrow> None \<in> set xs"
  by (induction xs) auto

lemma series_fillna_int: "series_fillna (IntCol xs) v = IntCol xs"
  by (cases v) simp_all

lemma impute_column_fixed_iff:
  "impute_column c = c \<longleftrightarrow> \<not> is_number c \<or> isnull_sum c = 0 \<or> dropna (numeric_values c) = []"
proof (cases c)
  case (FloatCol xs)
  show ?thesis
  proof (cases "nanmedian (dropna xs)")
    case None
    then have "dropna xs = []" by (simp add: nanmedian_None_iff)
    then show ?thesis using FloatCol
      by (simp add: impute_column_def series_median_def nanmedian_def)
  next
    case (Some m)
    then have ne: "dropna xs \<noteq> []" using nanmedian_None_iff [of "dropna xs"] by auto
    have "map (fill_cell m) xs = xs \<longleftrightarrow> None \<notin> set xs"
      by (rule map_fill_cell_fixed_iff)
    then show ?thesis using FloatCol Some ne
      by (simp add: impute_column_def series_median_def isnull_sum_zero_iff none_cells_float
            del: cells.simps)
  qed
next
  case (IntCol xs)
  have "None \<notin> set (cells (IntCol xs))" by auto
  then show ?thesis using IntCol
    by (simp add: impute_column_def series_fillna_int isnull_sum_zero_iff del: cells.simps)
qed (simp_all add: impute_column_def)

lemma cells_impute_column:
  "cells (impute_column c) =
     (case series_median c of
        None \<Rightarrow> cells c
      | Some m \<Rightarrow> if is_number c then map (fill_cell (Number m)) (cells c) else cells c)"
  by (simp add: impute_column_def cells_series_fillna split: option.splits)

lemma map_of_loaded:
  "map_of (map (\<lambda>(n, c). (n, impute_column c)) cs) n = map_option impute_column (map_of cs n)"
  by (simp add: map_of_map)


subsection \<open>The example inputs, evaluated\<close>

lemma csv_env_read: "pd_read_csv (csv_env path text df) path = Inr df"
  by (simp add: pd_read_csv_def csv_env_def)

lemmas eval_impute = impute_column_def series_median_def nanmedian_def dropna_def
  List.map_filter_def fill_cell_def

lemma example_read: "pd_read_csv example_env default_path = Inr example_src"
  by (simp add: example_env_def csv_env_read)

lemma example_wf: "wf_df example_src"
  by (simp add: wf_df_def example_src_def col_len_def)

lemma example_load: "load_data example_env default_path = ([], Some example_loaded)"
  unfolding load_data_success [OF example_read example_wf]
  by (simp add: example_src_def example_loaded_def eval_impute)

subsection \<open>The imputation of a loaded table\<close>




lemma col_len_impute: "col_len (impute_column c) = col_len c"
  by (simp add: col_len_def cells_impute_column split: option.splits)





lemma all_missing_cells:
  assumes "is_number c" and "dropna (numeric_values c) = []"
  shows "isnull_sum c = col_len c"
proof -
  have "\<forall>x \<in> set (numeric_values c). x = None" using assms(2) by (simp add: dropna_Nil_iff)
  then have "\<forall>x \<in> set (cells c). x = None" using assms(1) by (auto simp: cells_numeric)
  then have "filter (\<lambda>v. v = None) (cells c) = cells c" by (simp add: filter_id_conv)
  then show ?thesis by (simp add: isnull_sum_def col_len_def)
qed

text \<open>
  C10: when a numeric column of the source has no present value, the load succeeds (no
  message, a Dataset is returned) and the Dataset holds that column unchanged: every one of
  its cells is still missing.
\<close>

theorem all_missing_column_stays_missing:
  assumes "pd_read_csv e path = Inr src" and "wf_df src"
    and "(n, c) \<in> set (columns src)" and "is_number c" and "dropna (numeric_values c) = []"
  shows "\<exists>d. load_data e path = ([], Some d) \<and> map_of (columns d) n = Some c \<and>
              isnull_sum c = col_len c"
proof -
  have "distinct (map fst (columns src))" using assms(2) by (simp add: wf_df_def)
  then have "map_of (columns src) n = Some c" using assms(3) by simp
  moreover have "impute_column c = c" using assms(5) by (simp add: impute_column_fixed_iff)
  ultimately have "map_of (map (\<lambda>(n, c). (n, impute_column c)) (columns src)) n = Some c"
    by (simp add: map_of_loaded)
  then show ?thesis
    using load_data_success [OF assms(1,2)] all_missing_cells [OF assms(4,5)] by simp
qed

lemma all_missing_read: "pd_read_csv all_missing_env default_path = Inr all_missing_src"
  by (simp add: all_missing_env_def csv_env_read)

lemma all_missing_wf: "wf_df all_missing_src"
  by (simp add: wf_df_def all_missing_src_def col_len_def)

lemma all_missing_load: "load_data all_missing_env default_path = ([], Some all_missing_src)"
  unfolding load_data_success [OF all_missing_read all_missing_wf]
  by (simp add: all_missing_src_def eval_impute)

theorem all_missing_column_stays_missing_witness:
  "load_data all_missing_env default_path = ([], Some all_missing_src) \<and>
   map_of (columns all_missing_src) ''pH'' = Some (FloatCol [None, None]) \<and>
   isnull_sum (FloatCol [None, None]) = 2"
proof -
  have mem: "(''pH'', FloatCol [None, None]) \<in> set (columns all_missing_src)"
    by (simp add: all_missing_src_def)
  have num: "is_number (FloatCol [None, None])" by simp
  have none: "dropna (numeric_values (FloatCol [None, None])) = []"
    by (simp add: dropna_def List.map_filter_def)
  show ?thesis
    using all_missing_column_stays_missing [OF all_missing_read all_missing_wf mem num none]
    by (simp add: all_missing_load col_len_def)
qed

text \<open>
  The claim C2 as stated fails on a column without any present value: the file of
  \<open>all_missing_env\<close> loads, and the numeric column pH of the Dataset has two missing cells.
\<close>

theorem imputed_invariant_counterexample:
  "load_data all_missing_env default_path = ([], Some all_missing_src) \<and>
   (''pH'', FloatCol [None, None]) \<in> set (columns all_missing_src) \<and>
   is_number (FloatCol [None, None]) \<and>
   isnull_sum (FloatCol [None, None]) = 2"
  by (simp add: all_missing_load) (simp add: all_missing_src_def isnull_sum_def)

text \<open>
  C2 (amended): in a loaded Dataset, a numeric column whose source column has at least one
  present value has no missing cell: it is the source column with every missing cell
  replaced by the median of the present values of that column.
\<close>

theorem imputed_invariant:
  assumes "pd_read_csv e path = Inr src" and "wf_df src" and "load_data e path = (out, Some d)"
    and "(n, c') \<in> set (columns d)" and "is_number c'"
    and "map_of (columns src) n = Some c" and "dropna (numeric_values c) \<noteq> []"
  shows "isnull_sum c' = 0 \<and> c' = series_fillna c (nanmedian (dropna (numeric_values c)))"
proof -
  have d: "d = src\<lparr>columns := map (\<lambda>(n, c). (n, impute_column c)) (columns src)\<rparr>"
    using assms(1-3) by (rule load_data_loaded)
  have dist: "distinct (map fst (columns src))" using assms(2) by (simp add: wf_df_def)
  from assms(4) obtain c0 where c0: "(n, c0) \<in> set (columns src)" "c' = impute_column c0"
    by (auto simp: d)
  from dist c0(1) assms(6) have "c0 = c" by simp
  then have c': "c' = impute_column c" using c0(2) by simp
  then have num: "is_number c" using assms(5) by (simp add: is_number_impute)
  obtain m where m: "series_median c = Some m"
    using assms(7) by (auto simp: series_median_def nanmedian_def Let_def)
  have "cells c' = map (fill_cell (Number m)) (cells c)"
    using c' num m by (simp add: cells_impute_column)
  then have "None \<notin> set (cells c')" by (auto simp: fill_cell_def split: option.splits)
  then have "isnull_sum c' = 0" by (simp add: isnull_sum_zero_iff)
  moreover have "c' = series_fillna c (nanmedian (dropna (numeric_values c)))"
    using c' num by (simp add: impute_column_def series_median_def)
  ultimately show ?thesis by simp
qed

theorem imputed_invariant_witness:
  "(''pH'', FloatCol [Some 7, Some 8, Some 9]) \<in> set (columns example_loaded) \<and>
   map_of (columns example_src) ''pH'' = Some (FloatCol [Some 7, None, Some 9]) \<and>
   isnull_sum (FloatCol [Some 7, Some 8, Some 9]) = 0"
proof -
  have mem: "(''pH'', FloatCol [Some 7, Some 8, Some 9]) \<in> set (columns example_loaded)"
    by (simp add: example_loaded_def)
  have num: "is_number (FloatCol [Some 7, Some 8, Some 9])" by simp
  have srcc: "map_of (columns example_src) ''pH'' = Some (FloatCol [Some 7, None, Some 9])"
    by (simp add: example_src_def)
  have ne: "dropna (numeric_values (FloatCol [Some 7, None, Some 9])) \<noteq> []"
    by (simp add: dropna_def List.map_filter_def)
  from imputed_invariant [OF example_read example_wf example_load mem num srcc ne]
  have "isnull_sum (FloatCol [Some 7, Some 8, Some 9]) = 0" by (rule conjunct1)
  with mem srcc show ?thesis by blast
qed

lemma nan_label_read: "pd_read_csv nan_label_env default_path = Inr nan_label_src"
  by (simp add: nan_label_env_def csv_env_read)

lemma nan_label_wf: "wf_df nan_label_src"
  by (simp add: wf_df_def nan_label_src_def col_len_def)

lemma nan_label_load: "load_data nan_label_env default_path = ([], Some nan_label_loaded)"
  unfolding load_data_success [OF nan_label_read nan_label_wf]
  by (simp add: nan_label_src_def nan_label_loaded_def eval_impute)




section \<open>Properties of the pages\<close>

subsection \<open>The select boxes of Parameter Trends and Distribution\<close>

lemma then_run_emit: "then_run (emit evs) b = (evs @ fst b, snd b)"
  by (simp add: then_run_def emit_def)










subsection \<open>Every page, with and without a Dataset\<close>





























subsection \<open>The value counts of the Potability page\<close>

lemma sum_list_sort_key: "sum_list (map (g :: 'a \<Rightarrow> nat) (sort_key f xs)) = sum_list (map g xs)"
proof -
  have "mset (map g (sort_key f xs)) = mset (map g xs)" by simp
  then have "sum_mset (mset (map g (sort_key f xs))) = sum_mset (mset (map g xs))" by simp
  then show ?thesis by (simp only: sum_mset_sum_list)
qed

lemma sum_count_remdups: "sum_list (map (count_list vs) (remdups vs)) = length vs"
proof -
  have "sum_list (map (count_list vs) (remdups vs)) = sum (count_list vs) (set (remdups vs))"
    by (rule sum_list_distinct_conv_sum_set) simp
  also have "\<dots> = length vs" by (simp add: sum_count_set)
  finally show ?thesis .
qed

lemma value_counts_sum: "sum_list (map snd (value_counts c)) = length (dropna (cells c))"
  by (simp add: value_counts_def Let_def sum_list_sort_key comp_def sum_count_remdups)

lemma value_counts_keys: "fst ` set (value_counts c) = set (dropna (cells c))"
  by (simp add: value_counts_def Let_def image_image)

lemma length_dropna: "length (dropna xs) + length (filter (\<lambda>v. v = None) xs) = length xs"
  by (induction xs) (auto simp: dropna_def List.map_filter_def)

lemma set_dropna: "set (dropna xs) = {v. Some v \<in> set xs}"
  by (induction xs) (auto simp: dropna_def List.map_filter_def)

text \<open>
  C4 (amended): on the Potability page of a loaded Dataset with a Potability column, the
  table shown holds the value counts of that column; the counts sum to the number of rows
  whose Potability cell is present, so together with the missing cells to the row count;
  and the categories are the values present in the column. When every Potability cell of
  the source file is 0 or 1 and none is missing, the load leaves the column as it is, the
  counts sum to the row count and the categories are a subset of {0, 1}.
\<close>

theorem potability_counts:
  assumes "pd_read_csv e path = Inr src" and "wf_df src" and "load_data e path = (out, Some d)"
    and "map_of (columns d) ''Potability'' = Some c"
  shows "StDataframe (ValueCounts (value_counts c)) \<in> set (fst (potability_page e (Some d))) \<and>
     sum_list (map snd (value_counts c)) + isnull_sum c = index_len d \<and>
     fst ` set (value_counts c) = set (dropna (cells c)) \<and>
     (\<forall>c0. map_of (columns src) ''Potability'' = Some c0 \<and>
           set (cells c0) \<subseteq> {Some (Number 0), Some (Number 1)} \<longrightarrow>
           c = c0 \<and> sum_list (map snd (value_counts c)) = index_len d \<and>
           fst ` set (value_counts c) \<subseteq> {Number 0, Number 1})"
proof -
  have d: "d = src\<lparr>columns := map (\<lambda>(n, c). (n, impute_column c)) (columns src)\<rparr>"
    using assms(1-3) by (rule load_data_loaded)
  from assms(4) have mem: "(''Potability'', c) \<in> set (columns d)" by (rule map_of_SomeD)
  then have name: "''Potability'' \<in> set (column_names d)"
    by (force simp: column_names_def)
  have get: "df_getitem d (Some ''Potability'') = Inr c" using assms(4) by (simp add: df_getitem_def)
  have page: "StDataframe (ValueCounts (value_counts c)) \<in> set (fst (potability_page e (Some d)))"
    by (simp add: potability_page_def name get then_run_emit Let_def)
  from mem obtain c0 where c0: "(''Potability'', c0) \<in> set (columns src)" "c = impute_column c0"
    by (auto simp: d)
  have "col_len c0 = index_len src"
    using assms(2) c0(1) by (auto simp: wf_df_def list_all_iff)
  then have len: "col_len c = index_len d" by (simp add: c0(2) col_len_impute d)
  have total: "sum_list (map snd (value_counts c)) + isnull_sum c = index_len d"
    using length_dropna [of "cells c"] len by (simp add: value_counts_sum isnull_sum_def col_len_def)
  have dist: "distinct (map fst (columns src))" using assms(2) by (simp add: wf_df_def)
  have binary: "c = c1 \<and> sum_list (map snd (value_counts c)) = index_len d \<and>
      fst ` set (value_counts c) \<subseteq> {Number 0, Number 1}"
    if c1: "map_of (columns src) ''Potability'' = Some c1"
      and vals: "set (cells c1) \<subseteq> {Some (Number 0), Some (Number 1)}" for c1
  proof -
    from dist c0(1) c1 have "c0 = c1" by simp
    moreover from vals have "None \<notin> set (cells c1)" by auto
    then have z: "isnull_sum c1 = 0" by (simp add: isnull_sum_zero_iff)
    then have "impute_column c1 = c1" by (simp add: impute_column_fixed_iff)
    ultimately have eq: "c = c1" using c0(2) by simp
    have "set (dropna (cells c1)) \<subseteq> {Number 0, Number 1}"
      using vals by (auto simp: set_dropna)
    then show ?thesis using eq z total by (simp add: value_counts_keys)
  qed
  have all: "\<forall>c0. map_of (columns src) ''Potability'' = Some c0 \<and>
           set (cells c0) \<subseteq> {Some (Number 0), Some (Number 1)} \<longrightarrow>
           c = c0 \<and> sum_list (map snd (value_counts c)) = index_len d \<and>
           fst ` set (value_counts c) \<subseteq> {Number 0, Number 1}"
    using binary by blast
  have keys: "fst ` set (value_counts c) = set (dropna (cells c))" by (rule value_counts_keys)
  from page total keys all show ?thesis by (intro conjI)
qed


lemmas eval_counts = value_counts_def dropna_def List.map_filter_def

theorem potability_counts_witness:
  "map_of (columns example_src) ''Potability'' = Some (IntCol [1, 0, 1]) \<and>
   set (cells (IntCol [1, 0, 1])) \<subseteq> {Some (Number 0), Some (Number 1)} \<and>
   value_counts (IntCol [1, 0, 1]) = [(Number 1, 2), (Number 0, 1)] \<and>
   sum_list (map snd (value_counts (IntCol [1, 0, 1]))) = index_len example_loaded \<and>
   fst ` set (value_counts (IntCol [1, 0, 1])) \<subseteq> {Number 0, Number 1}"
proof -
  have c: "map_of (columns example_loaded) ''Potability'' = Some (IntCol [1, 0, 1])"
    by (simp add: example_loaded_def)
  have c0: "map_of (columns example_src) ''Potability'' = Some (IntCol [1, 0, 1]) \<and>
      set (cells (IntCol [1, 0, 1])) \<subseteq> {Some (Number 0), Some (Number 1)}"
    by (simp add: example_src_def)
  have v: "value_counts (IntCol [1, 0, 1]) = [(Number 1, 2), (Number 0, 1)]"
    by (simp add: eval_counts)
  from potability_counts [OF example_read example_wf example_load c] c0
  have "sum_list (map snd (value_counts (IntCol [1, 0, 1]))) = index_len example_loaded \<and>
      fst ` set (value_counts (IntCol [1, 0, 1])) \<subseteq> {Number 0, Number 1}"
    by blast
  with c0 v show ?thesis by blast
qed

lemma no_label_read: "pd_read_csv no_label_env default_path = Inr no_label_src"
  by (simp add: no_label_env_def csv_env_read)

lemma no_label_wf: "wf_df no_label_src"
  by (simp add: wf_df_def no_label_src_def col_len_def)

lemma no_label_load: "load_data no_label_env default_path = ([], Some no_label_src)"
  unfolding load_data_success [OF no_label_read no_label_wf]
  by (simp add: no_label_src_def eval_impute)

text \<open>
  The claim C4 as stated fails in both parts. With one empty Potability cell between a 1
  and a 0, the load fills the median 1/2, which is then a third category. With every
  Potability cell empty the column stays missing, \<open>value_counts\<close> leaves missing cells out,
  and the counts sum to 0 in a Dataset of two rows.
\<close>

theorem potability_counts_counterexample:
  "load_data nan_label_env default_path = ([], Some nan_label_loaded) \<and>
   StDataframe (ValueCounts [(Number 1, 1), (Number (1 / 2), 1), (Number 0, 1)])
     \<in> set (fst (potability_page nan_label_env (Some nan_label_loaded))) \<and>
   Number (1 / 2) \<notin> {Number 0, Number 1} \<and>
   load_data no_label_env default_path = ([], Some no_label_src) \<and>
   StDataframe (ValueCounts []) \<in> set (fst (potability_page no_label_env (Some no_label_src))) \<and>
   index_len no_label_src = 2"
proof -
  have a: "StDataframe (ValueCounts [(Number 1, 1), (Number (1 / 2), 1), (Number 0, 1)])
     \<in> set (fst (potability_page nan_label_env (Some nan_label_loaded)))"
    by (simp add: potability_page_def column_names_def df_getitem_def nan_label_loaded_def
          then_run_emit eval_counts Let_def)
  have b: "StDataframe (ValueCounts []) \<in> set (fst (potability_page no_label_env (Some no_label_src)))"
    by (simp add: potability_page_def column_names_def df_getitem_def no_label_src_def
          then_run_emit eval_counts Let_def)
  have c: "index_len no_label_src = 2" by (simp add: no_label_src_def)
  show ?thesis using a b c by (simp add: nan_label_load no_label_load)
qed

end
